theory Spec2Isabelle
  imports Complex_Main "HOL-Library.Char_ord" "HOL-Library.List_Lexorder"
    "HOL-Library.Product_Lexorder"
begin

section \<open>Seoul air-quality dashboard: loader and aggregator of app.py\<close>

text \<open>
  The program is a pandas script. A data frame is modelled as a list of rows (a record per
  row, in index order), a column (Series) as the list of its cells, and a cell that pandas
  can hold as NaN or NaT as an \<open>option\<close> with \<open>None\<close> for the missing value.
  A number in a cell is the real number it denotes; the two infinities are outside the
  model. Comparisons, maxima and minima of such numbers are exact in the program and in the
  model. The float64 arithmetic of pandas and numpy (mean, standard deviation, decimal
  rounding) is not modelled: these operations are parameters of the model, collected in the
  record \<open>float_ops\<close>, and every theorem holds for each choice of them. The column names and the grade labels of the source are Korean strings; the
  model uses the names of the specification (timestamp, district, pm10, pm25, year, month,
  day, hour; Good, Moderate, Bad, VeryBad, NoData).
\<close>

subsection \<open>Grades (app.py, lines 63 to 77)\<close>

text \<open>The five string constants that \<open>get_air_quality_grade\<close> can return.\<close>

datatype grade = Good | Moderate | Bad | VeryBad | NoData

text \<open>\<open>pd.isna\<close> on a scalar.\<close>

definition isna :: "'a option \<Rightarrow> bool" where
  "isna v = (v = None)"

text \<open>
  The function of lines 63 to 77. The first test is \<open>pd.isna(value)\<close>; then the
  pollutant string is compared with the literal PM10 and every other string falls into the
  \<open>else\<close> branch.
\<close>

fun get_air_quality_grade :: "real option \<Rightarrow> string \<Rightarrow> grade" where
  "get_air_quality_grade None pollutant = NoData"
| "get_air_quality_grade (Some v) pollutant =
     (if pollutant = ''PM10'' then
        (if v \<le> 30 then Good
         else if v \<le> 80 then Moderate
         else if v \<le> 150 then Bad
         else VeryBad)
      else
        (if v \<le> 15 then Good
         else if v \<le> 35 then Moderate
         else if v \<le> 75 then Bad
         else VeryBad))"

text \<open>
  The order of the grades in the specification's table, used to state monotonicity:
  Good, Moderate, Bad, Very Bad, and last the grade for a missing value.
\<close>

fun severity :: "grade \<Rightarrow> nat" where
  "severity Good = 0"
| "severity Moderate = 1"
| "severity Bad = 2"
| "severity VeryBad = 3"
| "severity NoData = 4"

subsection \<open>Tables\<close>

text \<open>
  A \<open>datetime.date\<close> is (year, month, day) and a pandas Timestamp is a date followed by
  hour, minute, second and nanosecond. Both are compared lexicographically, which is the
  chronological order. NaT is \<open>None\<close>.
\<close>

type_synonym date = "int \<times> int \<times> int"

type_synonym timestamp = "date \<times> int \<times> int \<times> int \<times> int"

definition ts_date :: "timestamp \<Rightarrow> date" where
  "ts_date t = fst t"

definition ts_year :: "timestamp \<Rightarrow> int" where
  "ts_year t = fst (fst t)"

definition ts_month :: "timestamp \<Rightarrow> int" where
  "ts_month t = fst (snd (fst t))"

definition ts_day :: "timestamp \<Rightarrow> int" where
  "ts_day t = snd (snd (fst t))"

definition ts_hour :: "timestamp \<Rightarrow> int" where
  "ts_hour t = fst (snd t)"

text \<open>
  A row of a CSV source as \<open>pd.read_csv\<close> returns it: the date-time column is still text.
\<close>

record raw_row =
  raw_datetime :: string
  raw_district :: string
  raw_pm10 :: "real option"
  raw_pm25 :: "real option"

text \<open>
  A row of the unified table: the date-time column parsed (line 52) and the four calendar
  columns of lines 54 to 57.
\<close>

record row =
  timestamp :: "timestamp option"
  district :: string
  pm10 :: "real option"
  pm25 :: "real option"
  year :: "int option"
  month :: "int option"
  day :: "int option"
  hour :: "int option"

text \<open>The two choices of the pollutant radio button (line 114), and the column each names.\<close>

datatype pollutant = PM10 | PM25

fun pollutant_name :: "pollutant \<Rightarrow> string" where
  "pollutant_name PM10 = ''PM10''"
| "pollutant_name PM25 = ''PM25''"

fun col :: "pollutant \<Rightarrow> row \<Rightarrow> real option" where
  "col PM10 r = pm10 r"
| "col PM25 r = pm25 r"

datatype error = IndexError | ValueError

subsection \<open>The pandas operations the script uses\<close>

text \<open>\<open>DataFrame.empty\<close>.\<close>

definition empty :: "'a list \<Rightarrow> bool" where
  "empty df = (df = [])"

text \<open>
  Comparison of a column with a scalar, cell by cell. A missing cell compares false with
  everything, also with a missing scalar.
\<close>

fun cell_eq :: "'a option \<Rightarrow> 'a option \<Rightarrow> bool" where
  "cell_eq (Some x) (Some y) = (x = y)"
| "cell_eq _ _ = False"

fun cell_ge :: "'a::linorder option \<Rightarrow> 'a option \<Rightarrow> bool" where
  "cell_ge (Some x) (Some y) = (y \<le> x)"
| "cell_ge _ _ = False"

fun cell_le :: "'a::linorder option \<Rightarrow> 'a option \<Rightarrow> bool" where
  "cell_le (Some x) (Some y) = (x \<le> y)"
| "cell_le _ _ = False"

definition series_eq :: "'a option list \<Rightarrow> 'a option \<Rightarrow> bool list" where
  "series_eq s v = map (\<lambda>c. cell_eq c v) s"

definition series_ge :: "'a::linorder option list \<Rightarrow> 'a option \<Rightarrow> bool list" where
  "series_ge s v = map (\<lambda>c. cell_ge c v) s"

definition series_le :: "'a::linorder option list \<Rightarrow> 'a option \<Rightarrow> bool list" where
  "series_le s v = map (\<lambda>c. cell_le c v) s"

text \<open>\<open>Series.isin\<close>, the operator \<open>&\<close> on two masks, and indexing a frame by a mask.\<close>

definition isin :: "'a list \<Rightarrow> 'a list \<Rightarrow> bool list" where
  "isin s vals = map (\<lambda>c. c \<in> set vals) s"

definition mask_and :: "bool list \<Rightarrow> bool list \<Rightarrow> bool list" where
  "mask_and a b = map2 (\<and>) a b"

definition bool_index :: "'a list \<Rightarrow> bool list \<Rightarrow> 'a list" where
  "bool_index df msk = map fst (filter snd (zip df msk))"

text \<open>\<open>iloc[0]\<close> raises IndexError on an empty frame or column.\<close>

fun iloc0 :: "'a list \<Rightarrow> error + 'a" where
  "iloc0 [] = Inl IndexError"
| "iloc0 (x # xs) = Inr x"

text \<open>The cells of a column that are not missing, in order.\<close>

definition dropna_cells :: "'a option list \<Rightarrow> 'a list" where
  "dropna_cells s = concat (map (\<lambda>c. case c of None \<Rightarrow> [] | Some x \<Rightarrow> [x]) s)"

text \<open>
  The float64 operations of the library, as parameters. A result that is NaN is \<open>None\<close>.
  \<^item> \<open>nanmean\<close> is \<open>Series.mean\<close> on a column that has at least one value; it gets
    the whole column, since pandas sums it with the missing cells replaced by zero and the
    order of the additions depends on the positions.
  \<^item> \<open>group_mean_op\<close> is the grouped mean on the values of a group that are not missing,
    in row order; pandas adds them one by one and divides by their number.
  \<^item> \<open>group_std_op\<close> is the grouped sample standard deviation on at least two such
    values.
  \<^item> \<open>around1\<close> is \<open>round(1)\<close> on a number.
\<close>

record float_ops =
  nanmean :: "real option list \<Rightarrow> real option"
  group_mean_op :: "real list \<Rightarrow> real option"
  group_std_op :: "real list \<Rightarrow> real option"
  around1 :: "real \<Rightarrow> real"

text \<open>
  The reductions of a column. All skip missing cells. \<open>max\<close> and \<open>min\<close> compare only and
  are exact. Without a cell left every result is missing; the standard deviation removes
  one degree of freedom and is missing with fewer than two cells left.
\<close>

definition series_max :: "'a::linorder option list \<Rightarrow> 'a option" where
  "series_max s = (case dropna_cells s of [] \<Rightarrow> None | x # xs \<Rightarrow> Some (fold max xs x))"

definition series_min :: "'a::linorder option list \<Rightarrow> 'a option" where
  "series_min s = (case dropna_cells s of [] \<Rightarrow> None | x # xs \<Rightarrow> Some (fold min xs x))"

definition series_mean :: "float_ops \<Rightarrow> real option list \<Rightarrow> real option" where
  "series_mean ops s = (if dropna_cells s = [] then None else nanmean ops s)"

definition grouped_mean :: "float_ops \<Rightarrow> real option list \<Rightarrow> real option" where
  "grouped_mean ops s =
     (let xs = dropna_cells s in if xs = [] then None else group_mean_op ops xs)"

definition grouped_std :: "float_ops \<Rightarrow> real option list \<Rightarrow> real option" where
  "grouped_std ops s =
     (let xs = dropna_cells s in if length xs \<le> 1 then None else group_std_op ops xs)"

text \<open>
  \<open>groupby\<close> on a key column: one group per distinct key, the keys in ascending order, each
  group holding its rows in table order. Rows whose key is missing belong to no group.
\<close>

definition groupby :: "('r \<Rightarrow> 'k::linorder option) \<Rightarrow> 'r list \<Rightarrow> ('k \<times> 'r list) list" where
  "groupby key df =
     map (\<lambda>k. (k, filter (\<lambda>r. key r = Some k) df))
       (sort (remdups (dropna_cells (map key df))))"

text \<open>
  \<open>sort_values(ascending=False)\<close> on a keyed column, as pandas' \<open>nargsort\<close> does it: the
  entries that are not missing are reversed, sorted ascending and reversed again, and the
  missing entries follow in their old order. The order among equal values depends on the
  sorting algorithm of numpy; the model takes a stable sort.
\<close>

definition sort_values_desc :: "('k \<times> real option) list \<Rightarrow> ('k \<times> real option) list" where
  "sort_values_desc s =
     (let non_nans = concat (map (\<lambda>(k, c). case c of None \<Rightarrow> [] | Some x \<Rightarrow> [(k, x)]) s);
          nans = filter (\<lambda>(k, c). c = None) s
      in map (\<lambda>(k, x). (k, Some x)) (rev (sort_key snd (rev non_nans))) @ nans)"

text \<open>\<open>round(1)\<close> on a cell. A missing cell stays missing.\<close>

definition round1 :: "float_ops \<Rightarrow> real option \<Rightarrow> real option" where
  "round1 ops c = map_option (around1 ops) c"

subsection \<open>Filtering and the latest snapshot (lines 138 to 166)\<close>

definition filtered_data :: "row list \<Rightarrow> int \<Rightarrow> string list \<Rightarrow> row list" where
  "filtered_data data selected_year selected_districts =
     bool_index data
       (mask_and (series_eq (map year data) (Some selected_year))
                 (isin (map district data) selected_districts))"

definition latest_data :: "row list \<Rightarrow> row list" where
  "latest_data view =
     bool_index view (series_eq (map timestamp view) (series_max (map timestamp view)))"

text \<open>
  The four metrics of the first tab (lines 153 to 166), computed only when the snapshot is not
  empty. The district shown beside the maximum is the first row of the snapshot whose value
  equals the maximum, taken with \<open>iloc[0]\<close>; the same for the minimum. The last metric
  formats the first timestamp of the snapshot, which raises ValueError on NaT.
\<close>

record metrics =
  avg_value :: "real option"
  avg_grade :: grade
  max_value :: "real option"
  max_district :: string
  min_value :: "real option"
  min_district :: string
  measured_at :: timestamp

definition tab1_metrics :: "float_ops \<Rightarrow> row list \<Rightarrow> pollutant \<Rightarrow> error + metrics option" where
  "tab1_metrics ops view p =
     (let latest = latest_data view
      in if empty latest then Inr None
         else
           (let s = map (col p) latest;
                avg = series_mean ops s;
                mx = series_max s;
                mn = series_min s
            in case iloc0 (map district (bool_index latest (series_eq s mx))) of
                 Inl e \<Rightarrow> Inl e
               | Inr dmax \<Rightarrow>
                   (case iloc0 (map district (bool_index latest (series_eq s mn))) of
                      Inl e \<Rightarrow> Inl e
                    | Inr dmin \<Rightarrow>
                        (case iloc0 (map timestamp latest) of
                           Inl e \<Rightarrow> Inl e
                         | Inr None \<Rightarrow> Inl ValueError
                         | Inr (Some t) \<Rightarrow>
                             Inr (Some \<lparr>avg_value = avg,
                                        avg_grade = get_air_quality_grade avg (pollutant_name p),
                                        max_value = mx, max_district = dmax,
                                        min_value = mn, min_district = dmin,
                                        measured_at = t\<rparr>)))))"

subsection \<open>Grouped means (lines 171, 187 and 200)\<close>

definition group_mean :: "float_ops \<Rightarrow> pollutant \<Rightarrow> 'k \<times> row list \<Rightarrow> 'k \<times> real option" where
  "group_mean ops p kg = (fst kg, grouped_mean ops (map (col p) (snd kg)))"

definition district_avg :: "float_ops \<Rightarrow> row list \<Rightarrow> pollutant \<Rightarrow> (string \<times> real option) list" where
  "district_avg ops view p =
     sort_values_desc (map (group_mean ops p) (groupby (\<lambda>r. Some (district r)) view))"

definition monthly_trend ::
  "float_ops \<Rightarrow> row list \<Rightarrow> pollutant \<Rightarrow> ((int \<times> string) \<times> real option) list" where
  "monthly_trend ops view p =
     map (group_mean ops p) (groupby (\<lambda>r. map_option (\<lambda>m. (m, district r)) (month r)) view)"

definition hourly_pattern :: "float_ops \<Rightarrow> row list \<Rightarrow> pollutant \<Rightarrow> (int \<times> real option) list" where
  "hourly_pattern ops view p = map (group_mean ops p) (groupby hour view)"

subsection \<open>Date range and summary statistics (lines 286 to 293)\<close>

text \<open>
  The date widget returns a tuple of zero, one or two dates; \<open>date_range[i]\<close> raises
  IndexError beyond its length.
\<close>

definition tuple_get :: "'a list \<Rightarrow> nat \<Rightarrow> error + 'a" where
  "tuple_get xs i = (if i < length xs then Inr (xs ! i) else Inl IndexError)"

definition dt_date :: "timestamp option list \<Rightarrow> date option list" where
  "dt_date s = map (map_option ts_date) s"

definition date_filtered :: "row list \<Rightarrow> date list \<Rightarrow> error + row list" where
  "date_filtered view date_range =
     (case tuple_get date_range 0 of
        Inl e \<Rightarrow> Inl e
      | Inr d0 \<Rightarrow>
          (case tuple_get date_range 1 of
             Inl e \<Rightarrow> Inl e
           | Inr d1 \<Rightarrow>
               Inr (bool_index view
                      (mask_and (series_ge (dt_date (map timestamp view)) (Some d0))
                                (series_le (dt_date (map timestamp view)) (Some d1))))))"

record stats =
  st_mean :: "real option"
  st_max :: "real option"
  st_min :: "real option"
  st_std :: "real option"

definition group_stats :: "float_ops \<Rightarrow> pollutant \<Rightarrow> 'k \<times> row list \<Rightarrow> 'k \<times> stats" where
  "group_stats ops p kg =
     (let s = map (col p) (snd kg)
      in (fst kg, \<lparr>st_mean = round1 ops (grouped_mean ops s),
                   st_max = round1 ops (series_max s),
                   st_min = round1 ops (series_min s),
                   st_std = round1 ops (grouped_std ops s)\<rparr>))"

definition summary_stats :: "float_ops \<Rightarrow> row list \<Rightarrow> pollutant \<Rightarrow> (string \<times> stats) list" where
  "summary_stats ops df p = map (group_stats ops p) (groupby (\<lambda>r. Some (district r)) df)"

subsection \<open>Loading (lines 31 to 60)\<close>

text \<open>
  The file system is a function from a file name to what \<open>pd.read_csv\<close> does with it:
  \<open>None\<close> when it raises, the rows of the file otherwise. Every source is taken to have
  the four columns the script reads. \<open>st.error\<close> is modelled by the list of the messages
  shown, one constructor per message.
\<close>

type_synonym filesystem = "string \<Rightarrow> raw_row list option"

datatype message = FileReadFailed string

definition files :: "(string \<times> string) list" where
  "files =
     [(''2008-2011'', ''seoul_air_20082011.csv''),
      (''2012-2015'', ''seoul_air_20122015.csv''),
      (''2016-2019'', ''seoul_air_20162019.csv''),
      (''2020-2021'', ''seoul_air_20202021.csv''),
      (''2022'', ''seoul_air_2022.csv'')]"

text \<open>The loop of lines 42 to 47, with the list \<open>dfs\<close> and the messages as its state.\<close>

fun read_files ::
  "filesystem \<Rightarrow> (string \<times> string) list \<Rightarrow> raw_row list list \<times> message list \<Rightarrow>
   raw_row list list \<times> message list" where
  "read_files fs [] st = st"
| "read_files fs ((period, file) # rest) (dfs, msgs) =
     (case fs file of
        Some df \<Rightarrow> read_files fs rest (dfs @ [df], msgs)
      | None \<Rightarrow> read_files fs rest (dfs, msgs @ [FileReadFailed file]))"

text \<open>
  Lines 52 to 57 on the concatenated frame. \<open>pd.to_datetime\<close> with \<open>errors='coerce'\<close> is
  a parameter: it gets the whole column (pandas infers the format from it) and the cell,
  and returns the timestamp or NaT. \<open>dropna\<close> on the parsed column removes the rows it left
  missing, and the accessors \<open>dt.year\<close>, \<open>dt.month\<close>, \<open>dt.day\<close>, \<open>dt.hour\<close> fill the
  calendar columns.
\<close>

definition normalise :: "(string list \<Rightarrow> string \<Rightarrow> timestamp option) \<Rightarrow> raw_row list \<Rightarrow> row list" where
  "normalise to_datetime data =
     (let parsed = map (\<lambda>r. (to_datetime (map raw_datetime data) (raw_datetime r), r)) data;
          kept = filter (\<lambda>tr. \<not> isna (fst tr)) parsed
      in map (\<lambda>tr. \<lparr>timestamp = fst tr,
                     district = raw_district (snd tr),
                     pm10 = raw_pm10 (snd tr),
                     pm25 = raw_pm25 (snd tr),
                     year = map_option ts_year (fst tr),
                     month = map_option ts_month (fst tr),
                     day = map_option ts_day (fst tr),
                     hour = map_option ts_hour (fst tr)\<rparr>) kept)"

text \<open>
  \<open>load_data\<close> for any configuration of sources; the script's own is \<open>files\<close>. The result
  is the table and the messages shown. With no source read, the script returns
  \<open>pd.DataFrame()\<close>, the frame without rows.
\<close>

definition load_data_from ::
  "(string list \<Rightarrow> string \<Rightarrow> timestamp option) \<Rightarrow> filesystem \<Rightarrow> (string \<times> string) list \<Rightarrow>
   row list \<times> message list" where
  "load_data_from to_datetime fs cfg =
     (let (dfs, msgs) = read_files fs cfg ([], [])
      in if dfs \<noteq> [] then (normalise to_datetime (concat dfs), msgs) else ([], msgs))"

definition load_data :: "(string list \<Rightarrow> string \<Rightarrow> timestamp option) \<Rightarrow> filesystem \<Rightarrow> row list \<times> message list" where
  "load_data to_datetime fs = load_data_from to_datetime fs files"

subsection \<open>Example data\<close>

text \<open>
  Rows of the scenarios of the specification: two rows of one district, the second without a
  PM10 reading and one hour later, and one row of another district at that later hour.
\<close>

definition ex_jung_40 :: row where
  "ex_jung_40 =
     \<lparr>timestamp = Some ((2022, 6, 1), 10, 0, 0, 0), district = ''Jung-gu'',
      pm10 = Some 40, pm25 = Some 20, year = Some 2022, month = Some 6, day = Some 1,
      hour = Some 10\<rparr>"

definition ex_jung_missing :: row where
  "ex_jung_missing =
     \<lparr>timestamp = Some ((2022, 6, 1), 11, 0, 0, 0), district = ''Jung-gu'',
      pm10 = None, pm25 = None, year = Some 2022, month = Some 6, day = Some 1,
      hour = Some 11\<rparr>"

definition ex_gangnam :: row where
  "ex_gangnam =
     \<lparr>timestamp = Some ((2022, 6, 1), 11, 0, 0, 0), district = ''Gangnam-gu'',
      pm10 = Some 25, pm25 = Some 10, year = Some 2022, month = Some 6, day = Some 1,
      hour = Some 11\<rparr>"

text \<open>
  A date-time parser that accepts one text, a file system with one source of two rows (the
  second with a text that does not parse), one empty source and no other file, and a
  configuration of three sources whose second cannot be read.
\<close>

definition ex_to_datetime :: "string list \<Rightarrow> string \<Rightarrow> timestamp option" where
  "ex_to_datetime c x = (if x = ''2022-06-01 10:00'' then Some ((2022, 6, 1), 10, 0, 0, 0) else None)"

definition ex_fs :: filesystem where
  "ex_fs file =
     (if file = ''a.csv'' then
        Some [\<lparr>raw_datetime = ''2022-06-01 10:00'', raw_district = ''Gangnam-gu'',
               raw_pm10 = Some 25, raw_pm25 = None\<rparr>,
              \<lparr>raw_datetime = ''not a date'', raw_district = ''Jung-gu'',
               raw_pm10 = Some 40, raw_pm25 = None\<rparr>]
      else if file = ''c.csv'' then Some []
      else None)"

definition ex_cfg :: "(string \<times> string) list" where
  "ex_cfg = [(''first'', ''a.csv''), (''second'', ''b.csv''), (''third'', ''c.csv'')]"









subsection \<open>Grade theorems\<close>

text \<open>
  C2: for a non-missing value, the PM10 grade is Good up to 30, Moderate above 30 and up to
  80, Bad above 80 and up to 150, Very Bad above 150; the PM2.5 grade is Good up to 15,
  Moderate above 15 and up to 35, Bad above 35 and up to 75, Very Bad above 75; a missing
  value gets the grade NoData, which is none of the four severity grades.
\<close>

theorem grade_thresholds:
  "(v \<le> 30 \<longrightarrow> get_air_quality_grade (Some v) ''PM10'' = Good) \<and>
   (30 < v \<and> v \<le> 80 \<longrightarrow> get_air_quality_grade (Some v) ''PM10'' = Moderate) \<and>
   (80 < v \<and> v \<le> 150 \<longrightarrow> get_air_quality_grade (Some v) ''PM10'' = Bad) \<and>
   (150 < v \<longrightarrow> get_air_quality_grade (Some v) ''PM10'' = VeryBad) \<and>
   (v \<le> 15 \<longrightarrow> get_air_quality_grade (Some v) ''PM2.5'' = Good) \<and>
   (15 < v \<and> v \<le> 35 \<longrightarrow> get_air_quality_grade (Some v) ''PM2.5'' = Moderate) \<and>
   (35 < v \<and> v \<le> 75 \<longrightarrow> get_air_quality_grade (Some v) ''PM2.5'' = Bad) \<and>
   (75 < v \<longrightarrow> get_air_quality_grade (Some v) ''PM2.5'' = VeryBad) \<and>
   get_air_quality_grade None p = NoData \<and>
   NoData \<notin> {Good, Moderate, Bad, VeryBad}"
  by simp

theorem grade_thresholds_witness:
  "get_air_quality_grade (Some 30) ''PM10'' = Good \<and>
   get_air_quality_grade (Some 80) ''PM10'' = Moderate \<and>
   get_air_quality_grade (Some 150) ''PM10'' = Bad \<and>
   get_air_quality_grade (Some 151) ''PM10'' = VeryBad \<and>
   get_air_quality_grade (Some 15) ''PM2.5'' = Good \<and>
   get_air_quality_grade (Some 35) ''PM2.5'' = Moderate \<and>
   get_air_quality_grade (Some 75) ''PM2.5'' = Bad \<and>
   get_air_quality_grade (Some 76) ''PM2.5'' = VeryBad \<and>
   get_air_quality_grade None ''PM10'' = NoData"
  using grade_thresholds [of 30 "''PM10''"] grade_thresholds [of 80]
    grade_thresholds [of 150] grade_thresholds [of 151]
    grade_thresholds [of 15] grade_thresholds [of 35]
    grade_thresholds [of 75] grade_thresholds [of 76]
  by simp

text \<open>
  C6: for each pollutant string the grade does not get less severe when the non-missing
  value grows, and the grade is NoData exactly when the value is missing.
\<close>

theorem grade_monotone:
  "(v1 \<le> v2 \<longrightarrow>
      severity (get_air_quality_grade (Some v1) p) \<le> severity (get_air_quality_grade (Some v2) p)) \<and>
   (get_air_quality_grade x p = NoData \<longleftrightarrow> x = None)"
  by (cases x) auto

theorem grade_monotone_witness:
  "(10::real) \<le> 100 \<and>
   severity (get_air_quality_grade (Some 10) ''PM10'') \<le>
     severity (get_air_quality_grade (Some 100) ''PM10'') \<and>
   get_air_quality_grade (Some 10) ''PM10'' \<noteq> NoData"
  using grade_monotone [of 10 100 "''PM10''" "Some 10"] by simp

text \<open>
  C10: for a non-missing value the PM10 thresholds are used when the pollutant string is
  exactly PM10, and every other string is graded with the PM2.5 thresholds, as the string
  PM2.5 itself is; no string is rejected.
\<close>

theorem grade_pollutant_dispatch:
  "(pollutant = ''PM10'' \<longrightarrow>
      get_air_quality_grade (Some v) pollutant =
        (if v \<le> 30 then Good else if v \<le> 80 then Moderate
         else if v \<le> 150 then Bad else VeryBad)) \<and>
   (pollutant \<noteq> ''PM10'' \<longrightarrow>
      get_air_quality_grade (Some v) pollutant =
        (if v \<le> 15 then Good else if v \<le> 35 then Moderate
         else if v \<le> 75 then Bad else VeryBad) \<and>
      get_air_quality_grade (Some v) pollutant = get_air_quality_grade (Some v) ''PM2.5'')"
  by simp

theorem grade_pollutant_dispatch_witness:
  "''PM25'' \<noteq> ''PM10'' \<and> ''ozone'' \<noteq> ''PM10'' \<and>
   get_air_quality_grade (Some 20) ''PM10'' = Good \<and>
   get_air_quality_grade (Some 20) ''PM25'' = Moderate \<and>
   get_air_quality_grade (Some 20) ''PM2.5'' = Moderate \<and>
   get_air_quality_grade (Some 20) ''ozone'' = Moderate"
  using grade_pollutant_dispatch [of "''PM10''" 20] grade_pollutant_dispatch [of "''PM25''" 20]
    grade_pollutant_dispatch [of "''ozone''" 20]
  by simp

subsection \<open>Masks and reductions\<close>

lemma cell_eq_Some: "cell_eq c (Some y) = (c = Some y)"
  by (cases c) auto

lemma bool_index_map: "bool_index df (map P df) = filter P df"
  by (induction df) (auto simp: bool_index_def)

lemma mask_and_map: "mask_and (map P df) (map Q df) = map (\<lambda>r. P r \<and> Q r) df"
  by (induction df) (auto simp: mask_and_def)

lemma series_eq_map: "series_eq (map f df) v = map (\<lambda>r. cell_eq (f r) v) df"
  by (simp add: series_eq_def)

lemma isin_map: "isin (map f df) vals = map (\<lambda>r. f r \<in> set vals) df"
  by (simp add: isin_def)

lemma filtered_data_filter:
  "filtered_data data y ds = filter (\<lambda>r. year r = Some y \<and> district r \<in> set ds) data"
  by (simp add: filtered_data_def series_eq_map isin_map mask_and_map bool_index_map cell_eq_Some)

lemma set_dropna_cells: "set (dropna_cells s) = {x. Some x \<in> set s}"
  by (induction s) (auto simp: dropna_cells_def split: option.splits)

lemma series_max_Max:
  assumes "dropna_cells s \<noteq> []"
  shows "series_max s = Some (Max (set (dropna_cells s)))"
proof (cases "dropna_cells s")
  case Nil
  with assms show ?thesis by simp
next
  case (Cons a list)
  then show ?thesis using Max.set_eq_fold [of a list] by (simp add: series_max_def)
qed


subsection \<open>Filter\<close>

text \<open>
  C1: for every table, year and list of district names, the filter returns exactly the rows,
  in table order, whose year column holds the given year and whose district is in the list;
  with no district selected the result has no rows, whatever the year.
\<close>

theorem filter_exact:
  "filtered_data data y ds = filter (\<lambda>r. year r = Some y \<and> district r \<in> set ds) data \<and>
   filtered_data data y [] = []"
  by (simp add: filtered_data_filter)

subsection \<open>Latest snapshot\<close>

lemma latest_data_Nil: "latest_data [] = []"
  by (simp add: latest_data_def bool_index_def series_eq_def)

lemma latest_data_filter:
  assumes "view \<noteq> []" and "\<forall>r\<in>set view. timestamp r \<noteq> None"
  shows "latest_data view =
     filter (\<lambda>r. timestamp r = Some (Max {t. Some t \<in> timestamp ` set view})) view"
proof -
  obtain r where "r \<in> set view" using assms(1) by (cases view) auto
  with assms(2) obtain t where "timestamp r = Some t" by auto
  with \<open>r \<in> set view\<close> have "t \<in> set (dropna_cells (map timestamp view))"
    by (force simp: set_dropna_cells)
  then have ne: "dropna_cells (map timestamp view) \<noteq> []" by auto
  have "series_max (map timestamp view) = Some (Max {t. Some t \<in> timestamp ` set view})"
    using series_max_Max [OF ne] by (simp add: set_dropna_cells)
  then show ?thesis
    by (simp add: latest_data_def series_eq_map bool_index_map cell_eq_Some)
qed

lemma latest_data_nonempty:
  assumes "view \<noteq> []" and "\<forall>r\<in>set view. timestamp r \<noteq> None"
  shows "latest_data view \<noteq> []"
proof -
  let ?T = "{t. Some t \<in> timestamp ` set view}"
  obtain r where "r \<in> set view" using assms(1) by (cases view) auto
  with assms(2) obtain t where "timestamp r = Some t" by auto
  with \<open>r \<in> set view\<close> have "t \<in> ?T" by force
  have "?T = set (dropna_cells (map timestamp view))" by (simp add: set_dropna_cells)
  then have "finite ?T" by (metis List.finite_set)
  with \<open>t \<in> ?T\<close> have "Max ?T \<in> ?T" using Max_in by blast
  then obtain r' where "r' \<in> set view" "timestamp r' = Some (Max ?T)" by force
  then have "filter (\<lambda>r. timestamp r = Some (Max ?T)) view \<noteq> []"
    by (auto simp: filter_empty_conv)
  then show ?thesis using latest_data_filter [OF assms] by simp
qed

text \<open>
  C9: on the empty view the latest snapshot is empty. On a view that has rows, all with a
  timestamp (as every row of a loaded table has), it is exactly the rows, in view order,
  whose timestamp is the greatest timestamp of the view, and there is at least one.
\<close>

theorem latest_snapshot:
  "latest_data [] = [] \<and>
   (view \<noteq> [] \<and> (\<forall>r\<in>set view. timestamp r \<noteq> None) \<longrightarrow>
      latest_data view =
        filter (\<lambda>r. timestamp r = Some (Max {t. Some t \<in> timestamp ` set view})) view \<and>
      latest_data view \<noteq> [])"
  using latest_data_Nil latest_data_filter latest_data_nonempty by blast

theorem latest_snapshot_witness:
  "[ex_jung_40, ex_jung_missing, ex_gangnam] \<noteq> [] \<and>
   timestamp ex_jung_40 \<noteq> None \<and> timestamp ex_jung_missing \<noteq> None \<and>
   timestamp ex_gangnam \<noteq> None \<and>
   latest_data [ex_jung_40, ex_jung_missing, ex_gangnam] =
     filter (\<lambda>r. timestamp r =
         Some (Max {t. Some t \<in> timestamp ` set [ex_jung_40, ex_jung_missing, ex_gangnam]}))
       [ex_jung_40, ex_jung_missing, ex_gangnam] \<and>
   latest_data [ex_jung_40, ex_jung_missing, ex_gangnam] = [ex_jung_missing, ex_gangnam]"
proof -
  have h: "[ex_jung_40, ex_jung_missing, ex_gangnam] \<noteq> [] \<and>
      (\<forall>r\<in>set [ex_jung_40, ex_jung_missing, ex_gangnam]. timestamp r \<noteq> None)"
    by (simp add: ex_jung_40_def ex_jung_missing_def ex_gangnam_def)
  have e: "latest_data [ex_jung_40, ex_jung_missing, ex_gangnam] = [ex_jung_missing, ex_gangnam]"
    by (simp add: latest_data_def series_max_def dropna_cells_def series_eq_def bool_index_def
        ex_jung_40_def ex_jung_missing_def ex_gangnam_def)
  from h e latest_snapshot [of "[ex_jung_40, ex_jung_missing, ex_gangnam]"] show ?thesis
    by simp
qed

subsection \<open>District means\<close>















subsection \<open>Loading\<close>

lemma read_files_acc:
  "read_files fs cfg (dfs, msgs) =
     (dfs @ List.map_filter (\<lambda>pf. fs (snd pf)) cfg,
      msgs @ map (\<lambda>pf. FileReadFailed (snd pf)) (filter (\<lambda>pf. fs (snd pf) = None) cfg))"
proof (induction cfg arbitrary: dfs msgs)
  case Nil
  then show ?case by (simp add: map_filter_simps)
next
  case (Cons pf cfg)
  obtain period fname where pf: "pf = (period, fname)" by (cases pf)
  show ?case
  proof (cases "fs fname")
    case None
    with Cons pf show ?thesis by (simp add: map_filter_simps)
  next
    case (Some df)
    with Cons pf show ?thesis by (simp add: map_filter_simps)
  qed
qed

lemma normalise_Nil: "normalise to_datetime [] = []"
  by (simp add: normalise_def)

lemma load_data_from_eq:
  "load_data_from to_datetime fs cfg =
     (normalise to_datetime (concat (List.map_filter (\<lambda>pf. fs (snd pf)) cfg)),
      map (\<lambda>pf. FileReadFailed (snd pf)) (filter (\<lambda>pf. fs (snd pf) = None) cfg))"
  by (simp add: load_data_from_def read_files_acc normalise_Nil)

lemma map_filter_all_None:
  "(\<forall>x\<in>set xs. f x = None) \<Longrightarrow> List.map_filter f xs = []"
  by (induction xs) (simp_all add: map_filter_simps)

lemma normalise_row:
  assumes "r \<in> set (normalise to_datetime data)"
  shows "\<exists>t. timestamp r = Some t \<and> year r = Some (ts_year t) \<and> month r = Some (ts_month t) \<and>
             day r = Some (ts_day t) \<and> hour r = Some (ts_hour t)"
  using assms by (auto simp: normalise_def Let_def isna_def)

lemma normalise_timestamps:
  "map timestamp (normalise to_datetime data) =
     filter (\<lambda>t. t \<noteq> None)
       (map (to_datetime (map raw_datetime data)) (map raw_datetime data))"
  by (simp add: normalise_def Let_def isna_def comp_def filter_map)

text \<open>
  C4: for every configuration, the messages are one per source that could not be read, in
  configuration order; the table is built from the sources that were read, concatenated in
  configuration order, so a source that fails removes only its own rows; and when no source
  was read the table is the frame without rows, which \<open>empty\<close> detects and which is not a
  frame of one row, whatever that row holds. The script's own \<open>load_data\<close> is the instance
  for its five files.
\<close>

theorem load_continues_after_failure:
  "snd (load_data_from to_datetime fs cfg) =
     map (\<lambda>pf. FileReadFailed (snd pf)) (filter (\<lambda>pf. fs (snd pf) = None) cfg) \<and>
   fst (load_data_from to_datetime fs cfg) =
     normalise to_datetime (concat (List.map_filter (\<lambda>pf. fs (snd pf)) cfg)) \<and>
   ((\<forall>pf\<in>set cfg. fs (snd pf) = None) \<longrightarrow>
      fst (load_data_from to_datetime fs cfg) = [] \<and>
      empty (fst (load_data_from to_datetime fs cfg)) \<and>
      (\<forall>r. fst (load_data_from to_datetime fs cfg) \<noteq> [r])) \<and>
   load_data to_datetime fs = load_data_from to_datetime fs files"
  by (simp add: load_data_from_eq map_filter_all_None normalise_Nil empty_def load_data_def)

theorem load_continues_after_failure_witness:
  "ex_fs ''seoul_air_20082011.csv'' = None \<and> ex_fs ''seoul_air_20122015.csv'' = None \<and>
   ex_fs ''seoul_air_20162019.csv'' = None \<and> ex_fs ''seoul_air_20202021.csv'' = None \<and>
   ex_fs ''seoul_air_2022.csv'' = None \<and>
   fst (load_data_from ex_to_datetime ex_fs files) = [] \<and>
   empty (fst (load_data ex_to_datetime ex_fs)) \<and>
   snd (load_data ex_to_datetime ex_fs) =
     [FileReadFailed ''seoul_air_20082011.csv'', FileReadFailed ''seoul_air_20122015.csv'',
      FileReadFailed ''seoul_air_20162019.csv'', FileReadFailed ''seoul_air_20202021.csv'',
      FileReadFailed ''seoul_air_2022.csv''] \<and>
   load_data_from ex_to_datetime ex_fs ex_cfg =
     ([\<lparr>timestamp = Some ((2022, 6, 1), 10, 0, 0, 0), district = ''Gangnam-gu'',
        pm10 = Some 25, pm25 = None, year = Some 2022, month = Some 6, day = Some 1,
        hour = Some 10\<rparr>], [FileReadFailed ''b.csv''])"
proof -
  have h: "\<forall>pf\<in>set files. ex_fs (snd pf) = None"
    by (simp add: files_def ex_fs_def)
  have e: "load_data_from ex_to_datetime ex_fs ex_cfg =
     ([\<lparr>timestamp = Some ((2022, 6, 1), 10, 0, 0, 0), district = ''Gangnam-gu'',
        pm10 = Some 25, pm25 = None, year = Some 2022, month = Some 6, day = Some 1,
        hour = Some 10\<rparr>], [FileReadFailed ''b.csv''])"
    by (simp add: load_data_from_def ex_cfg_def ex_fs_def ex_to_datetime_def normalise_def
        isna_def ts_year_def ts_month_def ts_day_def ts_hour_def)
  note t = load_continues_after_failure [of ex_to_datetime ex_fs files]
  from t have d: "load_data ex_to_datetime ex_fs = load_data_from ex_to_datetime ex_fs files"
    by blast
  from t h have a: "fst (load_data_from ex_to_datetime ex_fs files) = []"
    by blast
  from t h have b: "empty (fst (load_data_from ex_to_datetime ex_fs files))"
    by blast
  from t have "snd (load_data_from ex_to_datetime ex_fs files) =
      map (\<lambda>pf. FileReadFailed (snd pf)) (filter (\<lambda>pf. ex_fs (snd pf) = None) files)"
    by blast
  then have c: "snd (load_data_from ex_to_datetime ex_fs files) =
     [FileReadFailed ''seoul_air_20082011.csv'', FileReadFailed ''seoul_air_20122015.csv'',
      FileReadFailed ''seoul_air_20162019.csv'', FileReadFailed ''seoul_air_20202021.csv'',
      FileReadFailed ''seoul_air_2022.csv'']"
    by (simp add: files_def ex_fs_def)
  have f: "ex_fs ''seoul_air_20082011.csv'' = None \<and> ex_fs ''seoul_air_20122015.csv'' = None \<and>
      ex_fs ''seoul_air_20162019.csv'' = None \<and> ex_fs ''seoul_air_20202021.csv'' = None \<and>
      ex_fs ''seoul_air_2022.csv'' = None"
    by (simp add: ex_fs_def)
  from a b c e f show ?thesis unfolding d by blast
qed

text \<open>
  C7: every row of the loaded table has a timestamp, and its year, month, day and hour are
  the components of that timestamp; the timestamps of the table are exactly the successful
  parses of the date-time column, in order, so a row whose text does not parse is dropped
  and no timestamp is made up for it.
\<close>

theorem retained_rows_have_timestamp:
  "(\<forall>r\<in>set (fst (load_data_from to_datetime fs cfg)).
      \<exists>t. timestamp r = Some t \<and> year r = Some (ts_year t) \<and> month r = Some (ts_month t) \<and>
          day r = Some (ts_day t) \<and> hour r = Some (ts_hour t)) \<and>
   (let c = map raw_datetime (concat (List.map_filter (\<lambda>pf. fs (snd pf)) cfg))
    in map timestamp (fst (load_data_from to_datetime fs cfg)) =
         filter (\<lambda>t. t \<noteq> None) (map (to_datetime c) c))"
  using normalise_row [of _ to_datetime]
  by (simp add: load_data_from_eq normalise_timestamps Let_def)

theorem retained_rows_have_timestamp_witness:
  "fst (load_data_from ex_to_datetime ex_fs ex_cfg) =
     [\<lparr>timestamp = Some ((2022, 6, 1), 10, 0, 0, 0), district = ''Gangnam-gu'',
       pm10 = Some 25, pm25 = None, year = Some 2022, month = Some 6, day = Some 1,
       hour = Some 10\<rparr>] \<and>
   map timestamp (fst (load_data_from ex_to_datetime ex_fs ex_cfg)) =
     filter (\<lambda>t. t \<noteq> None)
       [ex_to_datetime [''2022-06-01 10:00'', ''not a date''] ''2022-06-01 10:00'',
        ex_to_datetime [''2022-06-01 10:00'', ''not a date''] ''not a date''] \<and>
   ts_year ((2022, 6, 1), 10, 0, 0, 0) = 2022 \<and> ts_month ((2022, 6, 1), 10, 0, 0, 0) = 6 \<and>
   ts_day ((2022, 6, 1), 10, 0, 0, 0) = 1 \<and> ts_hour ((2022, 6, 1), 10, 0, 0, 0) = 10"
proof -
  have e: "fst (load_data_from ex_to_datetime ex_fs ex_cfg) =
     [\<lparr>timestamp = Some ((2022, 6, 1), 10, 0, 0, 0), district = ''Gangnam-gu'',
       pm10 = Some 25, pm25 = None, year = Some 2022, month = Some 6, day = Some 1,
       hour = Some 10\<rparr>]"
    by (simp add: load_data_from_def ex_cfg_def ex_fs_def ex_to_datetime_def normalise_def
        isna_def ts_year_def ts_month_def ts_day_def ts_hour_def)
  have c: "map raw_datetime (concat (List.map_filter (\<lambda>pf. ex_fs (snd pf)) ex_cfg)) =
      [''2022-06-01 10:00'', ''not a date'']"
    by (simp add: ex_cfg_def ex_fs_def map_filter_simps)
  from retained_rows_have_timestamp [of ex_to_datetime ex_fs ex_cfg]
  have "map timestamp (fst (load_data_from ex_to_datetime ex_fs ex_cfg)) =
     filter (\<lambda>t. t \<noteq> None)
       [ex_to_datetime [''2022-06-01 10:00'', ''not a date''] ''2022-06-01 10:00'',
        ex_to_datetime [''2022-06-01 10:00'', ''not a date''] ''not a date'']"
    unfolding c Let_def by simp
  with e show ?thesis by (simp add: ts_year_def ts_month_def ts_day_def ts_hour_def)
qed

subsection \<open>Date range and summary statistics\<close>



lemma date_filtered_short:
  "date_filtered view [] = Inl IndexError \<and> date_filtered view [lo] = Inl IndexError"
  by (simp add: date_filtered_def tuple_get_def)









subsection \<open>The metrics of the latest snapshot\<close>

text \<open>
  C3: the grouped means, the summary statistics and the extraction of the latest snapshot
  return empty results on the empty view and missing results on a view without a reading of
  the pollutant. The aggregation of the snapshot into the metrics of lines 153 to 166 is
  not total: on the empty view the guard of line 153 skips it, but on a view whose latest
  rows have no reading of the pollutant the maximum is missing, no row compares equal to
  it, and \<open>iloc[0]\<close> of line 163 raises IndexError.
\<close>

theorem tab1_metrics_all_missing:
  "tab1_metrics ops [ex_jung_missing] PM10 = Inl IndexError \<and>
   tab1_metrics ops [ex_jung_40, ex_jung_missing] PM10 = Inl IndexError \<and>
   tab1_metrics ops [] PM10 = Inr None \<and>
   latest_data [] = [] \<and> district_avg ops [] PM10 = [] \<and> monthly_trend ops [] PM10 = [] \<and>
   hourly_pattern ops [] PM10 = [] \<and> summary_stats ops [] PM10 = [] \<and>
   latest_data [ex_jung_missing] = [ex_jung_missing] \<and>
   district_avg ops [ex_jung_missing] PM10 = [(''Jung-gu'', None)] \<and>
   monthly_trend ops [ex_jung_missing] PM10 = [((6, ''Jung-gu''), None)] \<and>
   hourly_pattern ops [ex_jung_missing] PM10 = [(11, None)] \<and>
   summary_stats ops [ex_jung_missing] PM10 =
     [(''Jung-gu'', \<lparr>st_mean = None, st_max = None, st_min = None, st_std = None\<rparr>)]"
  by (simp add: tab1_metrics_def latest_data_def series_max_def series_min_def series_mean_def
      grouped_mean_def grouped_std_def dropna_cells_def bool_index_def series_eq_def empty_def
      district_avg_def monthly_trend_def hourly_pattern_def summary_stats_def groupby_def
      group_mean_def group_stats_def sort_values_desc_def round1_def ex_jung_missing_def
      ex_jung_40_def)

end
